theory Spec2Isabelle
  imports Main
begin

section \<open>JavaScript values read by the error classes\<close>

text \<open>
  \<^verbatim>\<open>src/errors.ts\<close> reads \<^verbatim>\<open>meta.body\<close>, whose TypeScript type is \<^verbatim>\<open>any\<close>, with
  \<^verbatim>\<open>typeof\<close>, property access, optional chaining and \<^verbatim>\<open>??\<close>. The values a response body
  can take are modelled as a datatype. Numbers are never computed with, only tested with
  \<^verbatim>\<open>typeof\<close> and passed on, so their representation is left as the type parameter \<open>'n\<close>.
  An array is an object (its \<^verbatim>\<open>typeof\<close> is \<^verbatim>\<open>'object'\<close>) whose properties are its indices.
\<close>

datatype 'n jsval =
    JUndefined
  | JNull
  | JBool bool
  | JNum 'n
  | JStr string
  | JObj "(string \<times> 'n jsval) list"

text \<open>The \<^verbatim>\<open>typeof\<close> operator; \<^verbatim>\<open>typeof null\<close> is \<^verbatim>\<open>'object'\<close>.\<close>

fun typeof :: "'n jsval \<Rightarrow> string" where
  "typeof JUndefined = ''undefined''"
| "typeof JNull = ''object''"
| "typeof (JBool b) = ''boolean''"
| "typeof (JNum n) = ''number''"
| "typeof (JStr s) = ''string''"
| "typeof (JObj ps) = ''object''"

text \<open>An exception of the language itself, thrown by no \<^verbatim>\<open>throw\<close> statement of the source.\<close>

datatype native_error = TypeError

text \<open>
  Property access \<^verbatim>\<open>v.k\<close>. Reading a property of \<^verbatim>\<open>undefined\<close> or \<^verbatim>\<open>null\<close> throws a
  \<^verbatim>\<open>TypeError\<close>; a missing property reads as \<^verbatim>\<open>undefined\<close>. The source reads the
  properties \<^verbatim>\<open>status\<close>, \<^verbatim>\<open>error\<close> and \<^verbatim>\<open>type\<close> only, which no boolean, number or
  string has.
\<close>

fun getProp :: "'n jsval \<Rightarrow> string \<Rightarrow> native_error + 'n jsval" where
  "getProp JUndefined k = Inl TypeError"
| "getProp JNull k = Inl TypeError"
| "getProp (JObj ps) k = Inr (case map_of ps k of None \<Rightarrow> JUndefined | Some v \<Rightarrow> v)"
| "getProp v k = Inr JUndefined"

text \<open>
  Optional chaining \<^verbatim>\<open>v?.k\<close>: \<^verbatim>\<open>undefined\<close> when \<open>v\<close> is \<^verbatim>\<open>undefined\<close> or \<^verbatim>\<open>null\<close>, the
  property otherwise. In \<^verbatim>\<open>a?.b?.c\<close> a nullish \<open>a\<close> ends the whole chain with
  \<^verbatim>\<open>undefined\<close>, which is also what the second step gives on \<^verbatim>\<open>undefined\<close>.
\<close>

fun optChain :: "'n jsval \<Rightarrow> string \<Rightarrow> 'n jsval" where
  "optChain JUndefined k = JUndefined"
| "optChain JNull k = JUndefined"
| "optChain (JObj ps) k = (case map_of ps k of None \<Rightarrow> JUndefined | Some v \<Rightarrow> v)"
| "optChain v k = JUndefined"

text \<open>The nullish coalescing operator \<^verbatim>\<open>a ?? b\<close>.\<close>

fun nullish :: "'n jsval \<Rightarrow> bool" where
  "nullish JUndefined = True"
| "nullish JNull = True"
| "nullish v = False"

definition coalesce :: "'n jsval \<Rightarrow> 'n jsval \<Rightarrow> 'n jsval" where
  "coalesce a b = (if nullish a then b else a)"

section \<open>The error taxonomy of \<^verbatim>\<open>src/errors.ts\<close>\<close>

text \<open>
  Modelled from the spec: the \<^verbatim>\<open>Result\<close> type is imported from \<^verbatim>\<open>./types\<close>, which is not
  among the sources. The spec gives it as \<^verbatim>\<open>{statusCode, headers, body, nodeId}\<close>; the
  error classes read \<^verbatim>\<open>body\<close>, \<^verbatim>\<open>statusCode\<close> and \<^verbatim>\<open>headers\<close>. The status code is a
  number or absent, the headers map a name to its values or are absent.
\<close>

type_synonym http_headers = "(string \<times> string list) list"

record 'n Result =
  statusCode :: "'n jsval"
  headers :: "http_headers option"
  body :: "'n jsval"
  nodeId :: "string option"

text \<open>The classes, and the \<^verbatim>\<open>extends\<close> clause of each.\<close>

datatype error_class =
    Error
  | ElasticsearchClientError
  | TimeoutError
  | ConnectionError
  | NoLivingConnectionsError
  | SerializationError
  | DeserializationError
  | ConfigurationError
  | ResponseError
  | RequestAbortedError

fun extends :: "error_class \<Rightarrow> error_class option" where
  "extends Error = None"
| "extends ElasticsearchClientError = Some Error"
| "extends c = Some ElasticsearchClientError"

text \<open>The prototype chain of an instance of a class: the class, then what it extends.\<close>

fun prototypeChain :: "error_class \<Rightarrow> error_class list" where
  "prototypeChain Error = [Error]"
| "prototypeChain ElasticsearchClientError = [ElasticsearchClientError, Error]"
| "prototypeChain c = [c, ElasticsearchClientError, Error]"

text \<open>
  An error object: the class it was constructed with (\<^verbatim>\<open>new.target\<close>), and the properties
  the constructors assign. \<open>meta\<close> and \<open>data\<close> are \<open>None\<close> where the property is
  \<^verbatim>\<open>undefined\<close> or was never assigned; both read as \<^verbatim>\<open>undefined\<close>. The stack trace that
  \<^verbatim>\<open>Error.captureStackTrace\<close> records is diagnostic text and is not modelled.
\<close>

record 'n client_error =
  constructedBy :: error_class
  name :: string
  message :: "'n jsval"
  meta :: "'n Result option"
  data :: "'n jsval option"

definition instanceof :: "'n client_error \<Rightarrow> error_class \<Rightarrow> bool" where
  "instanceof e c = (c \<in> set (prototypeChain (constructedBy e)))"

text \<open>
  The \<^verbatim>\<open>message\<close> argument is declared \<^verbatim>\<open>string\<close>; the constructors also expect
  \<^verbatim>\<open>undefined\<close> and \<^verbatim>\<open>null\<close> there, as their \<^verbatim>\<open>message ?? '...'\<close> shows.
\<close>

datatype message_arg = MUndefined | MNull | MStr string

fun argValue :: "message_arg \<Rightarrow> 'n jsval" where
  "argValue MUndefined = JUndefined"
| "argValue MNull = JNull"
| "argValue (MStr s) = JStr s"

text \<open>
  The built-in \<^verbatim>\<open>Error\<close> constructor, reached through \<^verbatim>\<open>super(message)\<close>: the message is
  the argument converted to a string, and \<^verbatim>\<open>Error.prototype\<close> supplies the name
  \<^verbatim>\<open>'Error'\<close> and, for an \<^verbatim>\<open>undefined\<close> argument, the empty message.
\<close>

definition Error_constructor :: "error_class \<Rightarrow> message_arg \<Rightarrow> 'n client_error" where
  "Error_constructor target msg =
     \<lparr> constructedBy = target,
       name = ''Error'',
       message = (case msg of MUndefined \<Rightarrow> JStr '''' | MNull \<Rightarrow> JStr ''null'' | MStr s \<Rightarrow> JStr s),
       meta = None,
       data = None \<rparr>"

definition ElasticsearchClientError_constructor ::
  "error_class \<Rightarrow> message_arg \<Rightarrow> 'n client_error" where
  "ElasticsearchClientError_constructor target msg =
     (Error_constructor target msg) \<lparr> name := ''ElasticsearchClientError'' \<rparr>"

definition new_ElasticsearchClientError :: "message_arg \<Rightarrow> 'n client_error" where
  "new_ElasticsearchClientError msg =
     ElasticsearchClientError_constructor ElasticsearchClientError msg"

definition new_TimeoutError :: "message_arg \<Rightarrow> 'n Result option \<Rightarrow> 'n client_error" where
  "new_TimeoutError msg m =
     (ElasticsearchClientError_constructor TimeoutError msg)
       \<lparr> name := ''TimeoutError'',
         message := coalesce (argValue msg) (JStr ''Timeout Error''),
         meta := m \<rparr>"

definition new_ConnectionError :: "message_arg \<Rightarrow> 'n Result option \<Rightarrow> 'n client_error" where
  "new_ConnectionError msg m =
     (ElasticsearchClientError_constructor ConnectionError msg)
       \<lparr> name := ''ConnectionError'',
         message := coalesce (argValue msg) (JStr ''Connection Error''),
         meta := m \<rparr>"

definition new_NoLivingConnectionsError :: "message_arg \<Rightarrow> 'n Result \<Rightarrow> 'n client_error" where
  "new_NoLivingConnectionsError msg m =
     (ElasticsearchClientError_constructor NoLivingConnectionsError msg)
       \<lparr> name := ''NoLivingConnectionsError'',
         message := coalesce (argValue msg)
           (JStr ''Given the configuration, the ConnectionPool was not able to find a usable Connection for this request.''),
         meta := Some m \<rparr>"

definition new_SerializationError :: "message_arg \<Rightarrow> 'n jsval \<Rightarrow> 'n client_error" where
  "new_SerializationError msg d =
     (ElasticsearchClientError_constructor SerializationError msg)
       \<lparr> name := ''SerializationError'',
         message := coalesce (argValue msg) (JStr ''Serialization Error''),
         data := Some d \<rparr>"

definition new_DeserializationError :: "message_arg \<Rightarrow> string \<Rightarrow> 'n client_error" where
  "new_DeserializationError msg d =
     (ElasticsearchClientError_constructor DeserializationError msg)
       \<lparr> name := ''DeserializationError'',
         message := coalesce (argValue msg) (JStr ''Deserialization Error''),
         data := Some (JStr d) \<rparr>"

definition new_ConfigurationError :: "message_arg \<Rightarrow> 'n client_error" where
  "new_ConfigurationError msg =
     (ElasticsearchClientError_constructor ConfigurationError msg)
       \<lparr> name := ''ConfigurationError'',
         message := coalesce (argValue msg) (JStr ''Configuration Error'') \<rparr>"

definition new_ResponseError :: "'n Result \<Rightarrow> 'n client_error" where
  "new_ResponseError m =
     (ElasticsearchClientError_constructor ResponseError (MStr ''Response Error''))
       \<lparr> name := ''ResponseError'',
         message :=
           (if typeof (body m) = ''object''
            then coalesce (optChain (optChain (body m) ''error'') ''type'') (JStr ''Response Error'')
            else JStr ''Response Error''),
         meta := Some m \<rparr>"

definition new_RequestAbortedError :: "message_arg \<Rightarrow> 'n Result option \<Rightarrow> 'n client_error" where
  "new_RequestAbortedError msg m =
     (ElasticsearchClientError_constructor RequestAbortedError msg)
       \<lparr> name := ''RequestAbortedError'',
         message := coalesce (argValue msg) (JStr ''Request aborted''),
         meta := m \<rparr>"

text \<open>
  The getters of \<^verbatim>\<open>ResponseError\<close>. They read \<^verbatim>\<open>this.meta\<close>, which the constructor
  always assigns; on an object of another class, whose \<^verbatim>\<open>meta\<close> may be \<^verbatim>\<open>undefined\<close>, the
  read of \<^verbatim>\<open>this.meta.body\<close> throws.
\<close>

definition ResponseError_body :: "'n client_error \<Rightarrow> native_error + 'n jsval" where
  "ResponseError_body this =
     (case meta this of None \<Rightarrow> Inl TypeError | Some m \<Rightarrow> Inr (body m))"

definition ResponseError_statusCode :: "'n client_error \<Rightarrow> native_error + 'n jsval" where
  "ResponseError_statusCode this =
     (case meta this of
        None \<Rightarrow> Inl TypeError
      | Some m \<Rightarrow>
          if typeof (body m) = ''object''
          then (case getProp (body m) ''status'' of
                  Inl err \<Rightarrow> Inl err
                | Inr st \<Rightarrow> if typeof st = ''number'' then Inr st else Inr (statusCode m))
          else Inr (statusCode m))"

definition ResponseError_headers :: "'n client_error \<Rightarrow> native_error + http_headers option" where
  "ResponseError_headers this =
     (case meta this of None \<Rightarrow> Inl TypeError | Some m \<Rightarrow> Inr (headers m))"


section \<open>The connection pool\<close>

text \<open>
  Modelled from the spec: the connection pool is not among the sources; what follows is
  the spec's data model and its component design of the pool. A node carries its
  liveness state; the pool is the ordered list of its nodes, the round-robin cursor and the
  configured resurrection policy. Times are milliseconds. The spec calls the delay before
  a dead node may be tried again a capped exponential backoff keyed on the failure count
  and gives no constants, so the delay is the pool's function \<open>backoff\<close> of that count.
\<close>

datatype Status = Alive | Dead

record Node =
  nid :: string
  url :: string
  roles :: "string list"
  status :: Status
  deadSince :: "nat option"
  failureCount :: nat
  nextResurrectAt :: "nat option"

datatype ResurrectStrategy = Ping | Optimistic | NoResurrect

record Pool =
  nodes :: "Node list"
  cursor :: nat
  resurrectStrategy :: ResurrectStrategy
  backoff :: "nat \<Rightarrow> nat"

text \<open>
  Modelled from the spec: \<^verbatim>\<open>markDead(id)\<close> sets the status to Dead, records
  \<^verbatim>\<open>deadSince\<close>, increments \<^verbatim>\<open>failureCount\<close> and computes \<^verbatim>\<open>nextResurrectAt\<close> from the
  backoff.
\<close>

definition deadNode :: "nat \<Rightarrow> (nat \<Rightarrow> nat) \<Rightarrow> Node \<Rightarrow> Node" where
  "deadNode now delay n =
     n \<lparr> status := Dead,
         deadSince := Some now,
         failureCount := failureCount n + 1,
         nextResurrectAt := Some (now + delay (failureCount n + 1)) \<rparr>"

definition markDead :: "nat \<Rightarrow> string \<Rightarrow> Pool \<Rightarrow> Pool" where
  "markDead now i p =
     p \<lparr> nodes := map (\<lambda>n. if nid n = i then deadNode now (backoff p) n else n) (nodes p) \<rparr>"

text \<open>
  Modelled from the spec: \<^verbatim>\<open>markAlive(id)\<close> clears the Dead state and resets the backoff
  state.
\<close>

definition aliveNode :: "Node \<Rightarrow> Node" where
  "aliveNode n =
     n \<lparr> status := Alive, deadSince := None, failureCount := 0, nextResurrectAt := None \<rparr>"

definition markAlive :: "string \<Rightarrow> Pool \<Rightarrow> Pool" where
  "markAlive i p = p \<lparr> nodes := map (\<lambda>n. if nid n = i then aliveNode n else n) (nodes p) \<rparr>"

text \<open>
  The selection strategies: round-robin over the remaining candidates, random, and a
  custom ranking. Each yields a position in the list of candidates; a random strategy
  draws its number from a generator indexed by the cursor.
\<close>

datatype Selector = RoundRobin | Random "nat \<Rightarrow> nat" | Custom "Node list \<Rightarrow> nat"

fun selectNext :: "Selector \<Rightarrow> nat \<Rightarrow> Node list \<Rightarrow> nat" where
  "selectNext RoundRobin cur cs = cur mod length cs"
| "selectNext (Random draw) cur cs = draw cur mod length cs"
| "selectNext (Custom rank) cur cs = rank cs mod length cs"

text \<open>The Alive nodes that match the filter and are not excluded.\<close>

definition candidates :: "(Node \<Rightarrow> bool) \<Rightarrow> string list \<Rightarrow> Pool \<Rightarrow> Node list" where
  "candidates flt excludeIds p =
     filter (\<lambda>n. status n = Alive \<and> flt n \<and> nid n \<notin> set excludeIds) (nodes p)"

text \<open>The first node of a list whose key is least.\<close>

fun leastBy :: "(Node \<Rightarrow> nat) \<Rightarrow> Node list \<Rightarrow> Node option" where
  "leastBy key [] = None"
| "leastBy key (n # ns) =
     (case leastBy key ns of
        None \<Rightarrow> Some n
      | Some m \<Rightarrow> if key m < key n then Some m else Some n)"

definition resurrectTime :: "Node \<Rightarrow> nat" where
  "resurrectTime n = (case nextResurrectAt n of None \<Rightarrow> 0 | Some t \<Rightarrow> t)"

definition deathTime :: "Node \<Rightarrow> nat" where
  "deathTime n = (case deadSince n of None \<Rightarrow> 0 | Some t \<Rightarrow> t)"

text \<open>
  Modelled from the spec: \<^verbatim>\<open>getConnection(filter, selector, excludeIds)\<close> returns the next
  Alive node that matches the filter and is not excluded, chosen by the selector. The
  filter and the exclusion are those of the Alive candidates; the spec applies neither to
  the dead nodes of the resurrection path. With no such node: under the policy
  \<^verbatim>\<open>ping\<close> the Dead node with the earliest \<^verbatim>\<open>nextResurrectAt\<close> that has elapsed is probed,
  and returned alive if the probe succeeds (a failed probe extends its backoff); under the
  optimistic policy the node that has been dead longest is returned without a probe;
  otherwise there is no node, which the caller reports as \<^verbatim>\<open>NoLivingConnectionsError\<close>.
  The probe is a call to the node: its answer, by node and time, is the argument \<open>probe\<close>.
\<close>

definition getConnection ::
  "(string \<Rightarrow> nat \<Rightarrow> bool) \<Rightarrow> nat \<Rightarrow> (Node \<Rightarrow> bool) \<Rightarrow> Selector \<Rightarrow> string list \<Rightarrow> Pool
     \<Rightarrow> Node option \<times> Pool" where
  "getConnection probe now flt sel excludeIds p =
     (let cs = candidates flt excludeIds p in
      if cs \<noteq> [] then (Some (cs ! selectNext sel (cursor p) cs), p \<lparr> cursor := cursor p + 1 \<rparr>)
      else
        (case resurrectStrategy p of
           NoResurrect \<Rightarrow> (None, p)
         | Optimistic \<Rightarrow> (leastBy deathTime (filter (\<lambda>n. status n = Dead) (nodes p)), p)
         | Ping \<Rightarrow>
             (case leastBy resurrectTime
                     (filter (\<lambda>n. status n = Dead \<and> resurrectTime n \<le> now) (nodes p)) of
                None \<Rightarrow> (None, p)
              | Some n \<Rightarrow>
                  if probe (nid n) now then (Some (aliveNode n), markAlive (nid n) p)
                  else (None, markDead now (nid n) p))))"

section \<open>The connection\<close>

text \<open>
  Modelled from the spec: the connection class is not among the sources, only its tests
  are. What follows is the spec's component design of the connection, with the messages
  the tests under \<^verbatim>\<open>src/\<close> expect.
\<close>

datatype ConnectionReuse = ReuseOptions | ReuseOff | ReuseFactory

record ConnectionOptions =
  optId :: string
  optUrl :: string
  optTimeout :: "nat option"
  optHeaders :: http_headers
  optAgent :: "ConnectionReuse option"
  optProxy :: "string option"
  optMaxBufferLength :: nat
  optMaxStringLength :: nat

record Connection =
  connId :: string
  connUrl :: string
  connTimeout :: "nat option"
  connHeaders :: http_headers
  maxBufferLength :: nat
  maxStringLength :: nat

text \<open>
  Modelled from the spec: the constructor of the connection, which is not among the
  sources. Construction validates the configuration and touches no network: it is a
  function of the options alone. The spec has the conflict of a manual connection-reuse option with a
  proxy option fail with \<^verbatim>\<open>ConfigurationError\<close>; the tests \<^verbatim>\<open>'Throw if detects http agent
  options'\<close> and \<^verbatim>\<open>'Throw if detects proxy option'\<close> expect the same error from this
  connection class for either option on its own.
\<close>

definition new_Connection :: "ConnectionOptions \<Rightarrow> 'n client_error + Connection" where
  "new_Connection opts =
     (if optProxy opts \<noteq> None then Inl (new_ConfigurationError MUndefined)
      else if optAgent opts \<noteq> None then Inl (new_ConfigurationError MUndefined)
      else Inr \<lparr> connId = optId opts,
                 connUrl = optUrl opts,
                 connTimeout = optTimeout opts,
                 connHeaders = optHeaders opts,
                 maxBufferLength = optMaxBufferLength opts,
                 maxStringLength = optMaxStringLength opts \<rparr>)"

text \<open>
  The parameters of one request. The body is already serialized bytes or a lazily produced
  sequence of them. The cancellation token is the time at which it fires, if it ever does.
\<close>

datatype RequestBody = NoBody | Bytes string | Lazy "string list"

record RequestParams =
  reqMethod :: string
  reqPath :: string
  reqQuerystring :: string
  reqHeaders :: http_headers
  reqBody :: RequestBody
  reqTimeout :: "nat option"
  cancelAt :: "nat option"

text \<open>What goes on the wire: method, path with query string, merged headers, body bytes.\<close>

record WireRequest =
  wireNode :: string
  wireMethod :: string
  wirePath :: string
  wireHeaders :: http_headers
  wireBody :: string

text \<open>Request headers are merged over the connection's defaults, which stay as they are.\<close>

definition mergeHeaders :: "http_headers \<Rightarrow> http_headers \<Rightarrow> http_headers" where
  "mergeHeaders defaults given =
     given @ filter (\<lambda>h. fst h \<notin> fst ` set given) defaults"

fun bodyBytes :: "RequestBody \<Rightarrow> string" where
  "bodyBytes NoBody = []"
| "bodyBytes (Bytes b) = b"
| "bodyBytes (Lazy parts) = concat parts"

definition wireRequest :: "Connection \<Rightarrow> RequestParams \<Rightarrow> WireRequest" where
  "wireRequest c p =
     \<lparr> wireNode = connId c,
       wireMethod = reqMethod p,
       wirePath = reqPath p @ (if reqQuerystring p = [] then [] else ''?'' @ reqQuerystring p),
       wireHeaders = mergeHeaders (connHeaders c) (reqHeaders p),
       wireBody = bodyBytes (reqBody p) \<rparr>"

text \<open>
  What the node does with a request, as the connection observes it: a transport-level
  failure (resolution failure, reset, premature close) after some time, with its message,
  or a response that is complete after some time. The response has its status, its
  headers, what its \<^verbatim>\<open>content-encoding\<close> indicates, the \<^verbatim>\<open>content-length\<close> it declares, and
  the chunks of its body.
\<close>

datatype Encoding = Identity | Gzip | Deflate

record 'n RawResponse =
  rawStatus :: 'n
  rawHeaders :: http_headers
  contentEncoding :: Encoding
  contentLength :: "nat option"
  chunks :: "string list"

datatype 'n Exchange = TransportFailure nat string | Responds nat "'n RawResponse"

fun duration :: "'n Exchange \<Rightarrow> nat" where
  "duration (TransportFailure d m) = d"
| "duration (Responds d r) = d"

text \<open>
  The timeout of an attempt: the one given with the call, else the connection's default.
\<close>

definition perAttemptTimeout :: "Connection \<Rightarrow> RequestParams \<Rightarrow> nat option" where
  "perAttemptTimeout c p = (case reqTimeout p of Some t \<Rightarrow> Some t | None \<Rightarrow> connTimeout c)"

text \<open>
  Modelled from the spec: how an attempt that starts at \<open>now\<close> ends. The token is checked
  before any I/O. After that the exchange runs until it ends by itself, until the token fires, or until the timer
  expires, whichever comes first; an exchange that ends at the very moment of the timer or
  of the token has ended, and a token that fires with the timer is the cancellation.
\<close>

datatype 'n Ending =
    CancelledBeforeSend
  | CancelledMidTransfer nat
  | TimerExpired nat
  | Failed nat string
  | Received nat "'n RawResponse"

definition ending :: "Connection \<Rightarrow> RequestParams \<Rightarrow> nat \<Rightarrow> 'n Exchange \<Rightarrow> 'n Ending" where
  "ending c p now x =
     (let timer = perAttemptTimeout c p;
          fires = (case cancelAt p of None \<Rightarrow> None | Some t \<Rightarrow> Some (t - now))
      in
        if (case cancelAt p of None \<Rightarrow> False | Some t \<Rightarrow> t \<le> now) then CancelledBeforeSend
        else if (case fires of
                   None \<Rightarrow> False
                 | Some k \<Rightarrow> k < duration x \<and> (case timer of None \<Rightarrow> True | Some t \<Rightarrow> k \<le> t))
        then CancelledMidTransfer (case fires of None \<Rightarrow> 0 | Some k \<Rightarrow> k)
        else if (case timer of None \<Rightarrow> False | Some t \<Rightarrow> t < duration x)
        then TimerExpired (case timer of None \<Rightarrow> 0 | Some t \<Rightarrow> t)
        else (case x of
                TransportFailure d m \<Rightarrow> Failed d m
              | Responds d r \<Rightarrow> Received d r))"

text \<open>Decimal notation, for the sizes that the messages name.\<close>

fun showNat :: "nat \<Rightarrow> string" where
  "showNat n =
     (if n < 10 then [''0123456789'' ! n]
      else showNat (n div 10) @ [''0123456789'' ! (n mod 10)])"

declare showNat.simps [simp del]

text \<open>
  The two caps on a response: the maximum size of a byte buffer and the maximum size of a
  decoded string. The message is the one the tests \<^verbatim>\<open>'Content length too big (buffer)'\<close>
  and \<^verbatim>\<open>'Content length too big (string)'\<close> expect.
\<close>

datatype SizeCap = BufferCap | StringCap

record Excess =
  cap :: SizeCap
  offending :: nat
  limit :: nat

definition exceeded :: "Connection \<Rightarrow> nat \<Rightarrow> Excess option" where
  "exceeded c n =
     (if n > maxBufferLength c
      then Some \<lparr> cap = BufferCap, offending = n, limit = maxBufferLength c \<rparr>
      else if n > maxStringLength c
      then Some \<lparr> cap = StringCap, offending = n, limit = maxStringLength c \<rparr>
      else None)"

definition tooBigMessage :: "Excess \<Rightarrow> string" where
  "tooBigMessage e =
     ''The content length ('' @ showNat (offending e)
       @ '') is bigger than the maximum allowed ''
       @ (case cap e of BufferCap \<Rightarrow> ''buffer'' | StringCap \<Rightarrow> ''string'')
       @ '' ('' @ showNat (limit e) @ '')''"

text \<open>
  Reading the body: a chunk is added to what is buffered only if the observed byte count
  stays within both caps. The result is the excess and what had been buffered, or the
  payload.
\<close>

fun readBody :: "Connection \<Rightarrow> string \<Rightarrow> string list \<Rightarrow> (Excess \<times> string) + string" where
  "readBody c acc [] = Inr acc"
| "readBody c acc (ch # rest) =
     (case exceeded c (length acc + length ch) of
        Some e \<Rightarrow> Inl (e, acc)
      | None \<Rightarrow> readBody c (acc @ ch) rest)"

text \<open>
  The outcome of one attempt: the error or the result, the request that went on the wire
  if one did, the time the attempt took, and the number of bytes of the response that were
  buffered.
\<close>

record 'n Attempt =
  outcome :: "'n client_error + 'n Result"
  wire :: "WireRequest option"
  elapsed :: nat
  buffered :: nat

text \<open>
  Modelled from the spec: response handling. The declared \<^verbatim>\<open>content-length\<close> is compared
  with the caps before anything is read, then the observed byte count while reading. A body whose
  \<^verbatim>\<open>content-encoding\<close> indicates gzip or deflate is decompressed before it is returned;
  the codecs are the platform's, the argument \<open>decompress\<close>.
\<close>

definition handleResponse ::
  "(Encoding \<Rightarrow> string \<Rightarrow> string) \<Rightarrow> Connection \<Rightarrow> 'n RawResponse
     \<Rightarrow> ('n client_error + 'n Result) \<times> nat" where
  "handleResponse decompress c r =
     (case (case contentLength r of None \<Rightarrow> None | Some n \<Rightarrow> exceeded c n) of
        Some e \<Rightarrow> (Inl (new_RequestAbortedError (MStr (tooBigMessage e)) None), 0)
      | None \<Rightarrow>
          (case readBody c [] (chunks r) of
             Inl (e, acc) \<Rightarrow>
               (Inl (new_RequestAbortedError (MStr (tooBigMessage e)) None), length acc)
           | Inr payload \<Rightarrow>
               (Inr \<lparr> statusCode = JNum (rawStatus r),
                      headers = Some (rawHeaders r),
                      body = JStr (case contentEncoding r of
                                     Identity \<Rightarrow> payload
                                   | Gzip \<Rightarrow> decompress Gzip payload
                                   | Deflate \<Rightarrow> decompress Deflate payload),
                      nodeId = Some (connId c) \<rparr>,
                length payload)))"

text \<open>
  Modelled from the spec: \<^verbatim>\<open>Connection.request\<close>, which is not among the sources; exactly
  one attempt against one node.
\<close>

definition request ::
  "(Encoding \<Rightarrow> string \<Rightarrow> string) \<Rightarrow> Connection \<Rightarrow> RequestParams \<Rightarrow> nat \<Rightarrow> 'n Exchange
     \<Rightarrow> 'n Attempt" where
  "request decompress c p now x =
     (case ending c p now x of
        CancelledBeforeSend \<Rightarrow>
          \<lparr> outcome = Inl (new_RequestAbortedError MUndefined None),
            wire = None, elapsed = 0, buffered = 0 \<rparr>
      | CancelledMidTransfer k \<Rightarrow>
          \<lparr> outcome = Inl (new_RequestAbortedError MUndefined None),
            wire = Some (wireRequest c p), elapsed = k, buffered = 0 \<rparr>
      | TimerExpired t \<Rightarrow>
          \<lparr> outcome = Inl (new_TimeoutError (MStr ''Request timed out'') None),
            wire = Some (wireRequest c p), elapsed = t, buffered = 0 \<rparr>
      | Failed d m \<Rightarrow>
          \<lparr> outcome = Inl (new_ConnectionError (MStr m) None),
            wire = Some (wireRequest c p), elapsed = d, buffered = 0 \<rparr>
      | Received d r \<Rightarrow>
          (case handleResponse decompress c r of
             (res, n) \<Rightarrow>
               \<lparr> outcome = res, wire = Some (wireRequest c p), elapsed = d, buffered = n \<rparr>))"

section \<open>The transport\<close>

text \<open>
  Modelled from the spec: the transport is not among the sources; what follows is the
  state machine of the spec's component design, \<^verbatim>\<open>SELECT \<rightarrow> SEND \<rightarrow> {SUCCESS | RETRY\<rightarrow>SELECT |
  FATAL}\<close>. Serialization, the codecs, the nodes and the probes are collaborators outside
  the core and are arguments of the model. Sniffing runs as a side call of its own and the
  notifications are observational only; neither is part of the state machine, and neither
  is modelled.
\<close>

record 'n Collaborators =
  serialize :: "'n jsval \<Rightarrow> string option"
  deserialize :: "http_headers \<Rightarrow> string \<Rightarrow> 'n jsval option"
  decompress :: "Encoding \<Rightarrow> string \<Rightarrow> string"
  indicatesError :: "'n jsval \<Rightarrow> bool"
  exchange :: "string \<Rightarrow> nat \<Rightarrow> 'n Exchange"
  probe :: "string \<Rightarrow> nat \<Rightarrow> bool"

text \<open>The configured defaults: a snapshot taken at construction, never changed by a call.\<close>

record TransportOptions =
  maxRetries :: nat
  requestTimeout :: "nat option"
  overallTimeout :: "nat option"
  defaultHeaders :: http_headers
  nodeFilter :: "Node \<Rightarrow> bool"
  nodeSelector :: Selector
  maxBuffer :: nat
  maxString :: nat

record 'n CallParams =
  callMethod :: string
  callPath :: string
  callQuerystring :: string
  callHeaders :: http_headers
  callBody :: "'n jsval"
  callTimeout :: "nat option"
  callCancelAt :: "nat option"

text \<open>
  The state of one call: the pool, the time, the attempt count, the ids of the nodes
  selected so far in the order of their selection, and the requests that went on the wire.
\<close>

record CallState =
  pool :: Pool
  clock :: nat
  startedAt :: nat
  attempts :: nat
  triedNodeIds :: "string list"
  wireLog :: "WireRequest list"

datatype 'n Step =
    Success "'n Result" CallState
  | Fatal "'n client_error" CallState
  | Retry "'n client_error" CallState

text \<open>
  The timeout of the next attempt: its own timeout, and with an overall deadline the
  lesser of that and what remains of the overall budget.
\<close>

definition attemptTimeout :: "TransportOptions \<Rightarrow> 'n CallParams \<Rightarrow> CallState \<Rightarrow> nat option" where
  "attemptTimeout opts call s =
     (let own = (case callTimeout call of Some t \<Rightarrow> Some t | None \<Rightarrow> requestTimeout opts) in
      case overallTimeout opts of
        None \<Rightarrow> own
      | Some budget \<Rightarrow>
          (let remaining = (startedAt s + budget) - clock s in
           case own of None \<Rightarrow> Some remaining | Some t \<Rightarrow> Some (min t remaining)))"

definition connectionOf :: "TransportOptions \<Rightarrow> Node \<Rightarrow> Connection" where
  "connectionOf opts n =
     \<lparr> connId = nid n,
       connUrl = url n,
       connTimeout = requestTimeout opts,
       connHeaders = defaultHeaders opts,
       maxBufferLength = maxBuffer opts,
       maxStringLength = maxString opts \<rparr>"

definition emptyResult :: "'n Result" where
  "emptyResult = \<lparr> statusCode = JUndefined, headers = None, body = JUndefined, nodeId = None \<rparr>"

text \<open>
  Modelled from the spec: \<^verbatim>\<open>SEND\<close>. Encode the body, delegate to
  \<^verbatim>\<open>Connection.request\<close>, decode the answer. A \<^verbatim>\<open>ConnectionError\<close> or \<^verbatim>\<open>TimeoutError\<close> marks the node dead and increments the attempt
  count; every other error is fatal and leaves the liveness of the node as it is.
\<close>

definition send ::
  "'n Collaborators \<Rightarrow> TransportOptions \<Rightarrow> 'n CallParams \<Rightarrow> Node \<Rightarrow> CallState \<Rightarrow> 'n Step" where
  "send env opts call node s =
     (case serialize env (callBody call) of
        None \<Rightarrow> Fatal (new_SerializationError MUndefined (callBody call)) s
      | Some bytes \<Rightarrow>
          (let conn = connectionOf opts node;
               params = \<lparr> reqMethod = callMethod call,
                          reqPath = callPath call,
                          reqQuerystring = callQuerystring call,
                          reqHeaders = callHeaders call,
                          reqBody = Bytes bytes,
                          reqTimeout = attemptTimeout opts call s,
                          cancelAt = callCancelAt call \<rparr>;
               a = request (decompress env) conn params (clock s) (exchange env (nid node) (clock s));
               s' = s \<lparr> clock := clock s + elapsed a,
                        wireLog := wireLog s @ (case wire a of None \<Rightarrow> [] | Some w \<Rightarrow> [w]) \<rparr>
           in
             case outcome a of
               Inr res \<Rightarrow>
                 (case (case body res of
                          JStr raw \<Rightarrow>
                            (case deserialize env (case headers res of None \<Rightarrow> [] | Some h \<Rightarrow> h) raw of
                               None \<Rightarrow> Inl raw
                             | Some v \<Rightarrow> Inr v)
                        | v \<Rightarrow> Inr v) of
                    Inl raw \<Rightarrow> Fatal (new_DeserializationError MUndefined raw) s'
                  | Inr v \<Rightarrow>
                      if indicatesError env (statusCode res)
                      then Fatal (new_ResponseError (res \<lparr> body := v \<rparr>)) s'
                      else Success (res \<lparr> body := v \<rparr>) s')
             | Inl e \<Rightarrow>
                 if constructedBy e = ConnectionError \<or> constructedBy e = TimeoutError
                 then Retry e (s' \<lparr> pool := markDead (clock s') (nid node) (pool s'),
                                    attempts := attempts s' + 1 \<rparr>)
                 else Fatal e s'))"

text \<open>
  Modelled from the spec: \<^verbatim>\<open>SELECT\<close>, then \<^verbatim>\<open>SEND\<close>. The pool is asked for a node, the
  ids tried so far in this call excluded; no node is fatal with \<^verbatim>\<open>NoLivingConnectionsError\<close>.
\<close>

definition attempt ::
  "'n Collaborators \<Rightarrow> TransportOptions \<Rightarrow> 'n CallParams \<Rightarrow> CallState \<Rightarrow> 'n Step" where
  "attempt env opts call s =
     (case getConnection (probe env) (clock s) (nodeFilter opts) (nodeSelector opts)
             (triedNodeIds s) (pool s) of
        (None, p) \<Rightarrow> Fatal (new_NoLivingConnectionsError MUndefined emptyResult) (s \<lparr> pool := p \<rparr>)
      | (Some node, p) \<Rightarrow>
          send env opts call node
            (s \<lparr> pool := p, triedNodeIds := triedNodeIds s @ [nid node] \<rparr>))"

text \<open>
  Modelled from the spec: the retry loop of the transport. After a retriable failure the
  call goes back to \<^verbatim>\<open>SELECT\<close> while the attempt count is at most \<^verbatim>\<open>maxRetries\<close>, and else ends with the last such error.
\<close>

function attemptLoop ::
  "'n Collaborators \<Rightarrow> TransportOptions \<Rightarrow> 'n CallParams \<Rightarrow> CallState
     \<Rightarrow> ('n client_error + 'n Result) \<times> CallState" where
  "attemptLoop env opts call s =
     (case attempt env opts call s of
        Success r s' \<Rightarrow> (Inr r, s')
      | Fatal e s' \<Rightarrow> (Inl e, s')
      | Retry e s' \<Rightarrow>
          if attempts s' \<le> maxRetries opts
          then attemptLoop env opts call s'
          else (Inl e, s'))"
  by pat_completeness auto
termination
proof (relation "measure (\<lambda>(env, opts, call, s). Suc (maxRetries opts) - attempts s)", goal_cases)
  case 1
  show ?case by simp
next
  case (2 env opts call s e s')
  have sent: "attempts s' = Suc (attempts s0)"
    if "send env opts call node s0 = Retry e s'" for node s0
    using that
    by (simp add: send_def Let_def
          split: option.splits sum.splits jsval.splits if_splits)
       auto
  have "attempts s' = Suc (attempts s)"
    using 2(1)
    by (auto simp: attempt_def split: prod.splits option.splits dest!: sent)
  with 2(2) show ?case by simp
qed

declare attemptLoop.simps [simp del]

text \<open>
  Modelled from the spec: \<^verbatim>\<open>Transport.request\<close>, which is not among the sources; one call,
  from a pool and a starting time.
\<close>

definition initialState :: "Pool \<Rightarrow> nat \<Rightarrow> CallState" where
  "initialState p now =
     \<lparr> pool = p, clock = now, startedAt = now, attempts = 0, triedNodeIds = [], wireLog = [] \<rparr>"

definition Transport_request ::
  "'n Collaborators \<Rightarrow> TransportOptions \<Rightarrow> 'n CallParams \<Rightarrow> Pool \<Rightarrow> nat
     \<Rightarrow> ('n client_error + 'n Result) \<times> CallState" where
  "Transport_request env opts call p now = attemptLoop env opts call (initialState p now)"

section \<open>What the claims say, as predicates\<close>

text \<open>
  An error "carries status code, headers and raw body" when a \<^verbatim>\<open>Result\<close> can be read from
  it.
\<close>

definition carriesResult :: "'n client_error \<Rightarrow> bool" where
  "carriesResult e = (case meta e of None \<Rightarrow> False | Some m \<Rightarrow> True)"

text \<open>
  The message of a \<^verbatim>\<open>ResponseError\<close> as the claim words it: \<^verbatim>\<open>meta.body.error.type\<close> when
  \<^verbatim>\<open>meta.body\<close> is an object whose \<^verbatim>\<open>error.type\<close> is neither \<^verbatim>\<open>undefined\<close> nor
  \<^verbatim>\<open>null\<close>, and \<^verbatim>\<open>'Response Error'\<close> in every other case.
\<close>

definition claimed_message :: "'n jsval \<Rightarrow> 'n jsval" where
  "claimed_message b =
     (case b of
        JObj ps \<Rightarrow>
          (case map_of ps ''error'' of
             Some (JObj es) \<Rightarrow>
               (case map_of es ''type'' of
                  Some t \<Rightarrow> if t = JUndefined \<or> t = JNull then JStr ''Response Error'' else t
                | None \<Rightarrow> JStr ''Response Error'')
           | _ \<Rightarrow> JStr ''Response Error'')
      | _ \<Rightarrow> JStr ''Response Error'')"







section \<open>The scenarios of the tests\<close>

text \<open>
  The concrete connections, requests and nodes of \<^verbatim>\<open>'Timeout support / 2'\<close>,
  \<^verbatim>\<open>'Timeout support / 3'\<close>, \<^verbatim>\<open>'Abort a request syncronously'\<close>,
  \<^verbatim>\<open>'Content length too big (buffer)'\<close>, \<^verbatim>\<open>'Content length too big (string)'\<close> and
  \<^verbatim>\<open>'Throw if detects proxy option'\<close>, and a cluster none of whose nodes can be reached.
  The caps are the values of \<^verbatim>\<open>buffer.constants.MAX_LENGTH\<close> and
  \<^verbatim>\<open>buffer.constants.MAX_STRING_LENGTH\<close> on a 64-bit platform.
\<close>

definition testConnection :: "nat option \<Rightarrow> Connection" where
  "testConnection t =
     \<lparr> connId = ''localhost:9200'', connUrl = ''http://localhost:9200'', connTimeout = t,
       connHeaders = [(''x-foo'', [''bar''])],
       maxBufferLength = 4294967296, maxStringLength = 536870888 \<rparr>"

definition getHello :: "nat option \<Rightarrow> nat option \<Rightarrow> RequestParams" where
  "getHello t cancel =
     \<lparr> reqMethod = ''GET'', reqPath = ''/hello'', reqQuerystring = [], reqHeaders = [],
       reqBody = NoBody, reqTimeout = t, cancelAt = cancel \<rparr>"

definition okAfter :: "nat \<Rightarrow> nat Exchange" where
  "okAfter d =
     Responds d \<lparr> rawStatus = 200, rawHeaders = [(''content-type'', [''text/plain''])],
                  contentEncoding = Identity, contentLength = None, chunks = [''ok''] \<rparr>"

definition gzipDeclaring :: "nat \<Rightarrow> nat RawResponse" where
  "gzipDeclaring n =
     \<lparr> rawStatus = 200,
       rawHeaders = [(''content-type'', [''application/json;utf=8'']),
                     (''content-encoding'', [''gzip'']),
                     (''connection'', [''keep-alive''])],
       contentEncoding = Gzip, contentLength = Some n,
       chunks = [''{hello:world}''] \<rparr>"

definition noCodec :: "Encoding \<Rightarrow> string \<Rightarrow> string" where
  "noCodec enc bytes = bytes"

definition agentAndProxy :: ConnectionOptions where
  "agentAndProxy =
     \<lparr> optId = ''localhost:9200'', optUrl = ''http://localhost:9200'', optTimeout = None,
       optHeaders = [], optAgent = Some ReuseOptions, optProxy = Some ''http://localhost:9201'',
       optMaxBufferLength = 4294967296, optMaxStringLength = 536870888 \<rparr>"

definition unreachableCluster :: "nat Collaborators" where
  "unreachableCluster =
     \<lparr> serialize = (\<lambda>v. Some []),
       deserialize = (\<lambda>h raw. Some (JStr raw)),
       decompress = noCodec,
       indicatesError = (\<lambda>st. False),
       exchange = (\<lambda>i t. TransportFailure 5 ''other side closed''),
       probe = (\<lambda>i t. False) \<rparr>"

definition clientDefaults :: "nat \<Rightarrow> TransportOptions" where
  "clientDefaults r =
     \<lparr> maxRetries = r, requestTimeout = Some 30000, overallTimeout = None, defaultHeaders = [],
       nodeFilter = (\<lambda>n. True), nodeSelector = RoundRobin,
       maxBuffer = 4294967296, maxString = 536870888 \<rparr>"

definition getRoot :: "nat option \<Rightarrow> nat CallParams" where
  "getRoot cancel =
     \<lparr> callMethod = ''GET'', callPath = ''/'', callQuerystring = [], callHeaders = [],
       callBody = JUndefined, callTimeout = None, callCancelAt = cancel \<rparr>"

definition aliveNodeAt :: "string \<Rightarrow> Node" where
  "aliveNodeAt i =
     \<lparr> nid = i, url = i, roles = [], status = Alive, deadSince = None, failureCount = 0,
       nextResurrectAt = None \<rparr>"

definition deadNodeAt :: "string \<Rightarrow> Node" where
  "deadNodeAt i =
     \<lparr> nid = i, url = i, roles = [], status = Dead, deadSince = Some 0, failureCount = 1,
       nextResurrectAt = Some 60000 \<rparr>"

definition poolOf :: "ResurrectStrategy \<Rightarrow> Node list \<Rightarrow> Pool" where
  "poolOf strategy ns =
     \<lparr> nodes = ns, cursor = 0, resurrectStrategy = strategy,
       backoff = (\<lambda>n. 60000 * 2 ^ (n - 1)) \<rparr>"


lemmas fixture_defs =
  testConnection_def getHello_def okAfter_def gzipDeclaring_def noCodec_def agentAndProxy_def
  unreachableCluster_def clientDefaults_def getRoot_def aliveNodeAt_def deadNodeAt_def poolOf_def

section \<open>Properties of the error classes\<close>

lemmas constructor_defs =
  Error_constructor_def ElasticsearchClientError_constructor_def
  new_TimeoutError_def new_ConnectionError_def new_NoLivingConnectionsError_def
  new_SerializationError_def new_DeserializationError_def new_ConfigurationError_def
  new_ResponseError_def new_RequestAbortedError_def

lemma nullish_iff: "nullish v = (v = JUndefined \<or> v = JNull)"
  by (cases v) simp_all

lemma TimeoutError_facts:
  "instanceof (new_TimeoutError msg m) ElasticsearchClientError"
  "name (new_TimeoutError msg m) = ''TimeoutError''"
  "message (new_TimeoutError MUndefined m) = JStr ''Timeout Error''"
  "message (new_TimeoutError MNull m) = JStr ''Timeout Error''"
  "message (new_TimeoutError (MStr s) m) = JStr s"
  by (simp_all add: constructor_defs instanceof_def coalesce_def)

lemma ConnectionError_facts:
  "instanceof (new_ConnectionError msg m) ElasticsearchClientError"
  "name (new_ConnectionError msg m) = ''ConnectionError''"
  "message (new_ConnectionError MUndefined m) = JStr ''Connection Error''"
  "message (new_ConnectionError MNull m) = JStr ''Connection Error''"
  "message (new_ConnectionError (MStr s) m) = JStr s"
  by (simp_all add: constructor_defs instanceof_def coalesce_def)

lemma NoLivingConnectionsError_facts:
  "instanceof (new_NoLivingConnectionsError msg r) ElasticsearchClientError"
  "name (new_NoLivingConnectionsError msg r) = ''NoLivingConnectionsError''"
  "message (new_NoLivingConnectionsError MUndefined r) =
     JStr ''Given the configuration, the ConnectionPool was not able to find a usable Connection for this request.''"
  "message (new_NoLivingConnectionsError MNull r) =
     JStr ''Given the configuration, the ConnectionPool was not able to find a usable Connection for this request.''"
  "message (new_NoLivingConnectionsError (MStr s) r) = JStr s"
  by (simp_all add: constructor_defs instanceof_def coalesce_def)

lemma SerializationError_facts:
  "instanceof (new_SerializationError msg d) ElasticsearchClientError"
  "name (new_SerializationError msg d) = ''SerializationError''"
  "message (new_SerializationError MUndefined d) = JStr ''Serialization Error''"
  "message (new_SerializationError MNull d) = JStr ''Serialization Error''"
  "message (new_SerializationError (MStr s) d) = JStr s"
  by (simp_all add: constructor_defs instanceof_def coalesce_def)

lemma DeserializationError_facts:
  "instanceof (new_DeserializationError msg raw) ElasticsearchClientError"
  "name (new_DeserializationError msg raw) = ''DeserializationError''"
  "message (new_DeserializationError MUndefined raw) = JStr ''Deserialization Error''"
  "message (new_DeserializationError MNull raw) = JStr ''Deserialization Error''"
  "message (new_DeserializationError (MStr s) raw) = JStr s"
  by (simp_all add: constructor_defs instanceof_def coalesce_def)

lemma ConfigurationError_facts:
  "instanceof (new_ConfigurationError msg) ElasticsearchClientError"
  "name (new_ConfigurationError msg) = ''ConfigurationError''"
  "message (new_ConfigurationError MUndefined) = JStr ''Configuration Error''"
  "message (new_ConfigurationError MNull) = JStr ''Configuration Error''"
  "message (new_ConfigurationError (MStr s)) = JStr s"
  by (simp_all add: constructor_defs instanceof_def coalesce_def)

lemma RequestAbortedError_facts:
  "instanceof (new_RequestAbortedError msg m) ElasticsearchClientError"
  "name (new_RequestAbortedError msg m) = ''RequestAbortedError''"
  "message (new_RequestAbortedError MUndefined m) = JStr ''Request aborted''"
  "message (new_RequestAbortedError MNull m) = JStr ''Request aborted''"
  "message (new_RequestAbortedError (MStr s) m) = JStr s"
  by (simp_all add: constructor_defs instanceof_def coalesce_def)

lemma ResponseError_facts:
  "instanceof (new_ResponseError r) ElasticsearchClientError"
  "name (new_ResponseError r) = ''ResponseError''"
  "nullish (optChain (optChain (body r) ''error'') ''type'') \<longrightarrow>
     message (new_ResponseError r) = JStr ''Response Error''"
  by (simp_all add: constructor_defs instanceof_def coalesce_def)

text \<open>
  C1, as amended. An error carries a \<^verbatim>\<open>Result\<close> (status code, headers, body, node id) only
  where its class has a \<^verbatim>\<open>meta\<close> field and the constructor was given one:
  \<^verbatim>\<open>ResponseError\<close> and \<^verbatim>\<open>NoLivingConnectionsError\<close> always carry the \<^verbatim>\<open>Result\<close> they were
  constructed with; \<^verbatim>\<open>TimeoutError\<close>, \<^verbatim>\<open>ConnectionError\<close> and \<^verbatim>\<open>RequestAbortedError\<close> carry
  it when one is passed and nothing otherwise; \<^verbatim>\<open>SerializationError\<close> and
  \<^verbatim>\<open>DeserializationError\<close> carry the data that could not be converted and no \<^verbatim>\<open>Result\<close>;
  \<^verbatim>\<open>ConfigurationError\<close> carries its name and message only.
\<close>

theorem errors_carry_what_they_were_given:
  "meta (new_ResponseError r) = Some r
   \<and> meta (new_NoLivingConnectionsError msg r) = Some r
   \<and> meta (new_TimeoutError msg given) = given
   \<and> meta (new_ConnectionError msg given) = given
   \<and> meta (new_RequestAbortedError msg given) = given
   \<and> meta (new_SerializationError msg d) = None
   \<and> data (new_SerializationError msg d) = Some d
   \<and> meta (new_DeserializationError msg raw) = None
   \<and> data (new_DeserializationError msg raw) = Some (JStr raw)
   \<and> meta (new_ConfigurationError msg) = None
   \<and> data (new_ConfigurationError msg) = None
   \<and> carriesResult (new_ResponseError r)
   \<and> carriesResult (new_NoLivingConnectionsError msg r)
   \<and> carriesResult (new_TimeoutError msg given) = (given \<noteq> None)
   \<and> carriesResult (new_ConnectionError msg given) = (given \<noteq> None)
   \<and> carriesResult (new_RequestAbortedError msg given) = (given \<noteq> None)"
  by (cases given) (simp_all add: carriesResult_def constructor_defs)

text \<open>
  C1, as stated, fails: a \<^verbatim>\<open>ConfigurationError\<close> has no \<^verbatim>\<open>meta\<close>, so no status code, headers
  or body can be read from it.
\<close>

theorem configuration_error_carries_no_result:
  "\<not> carriesResult (new_ConfigurationError (MStr ''bad configuration'') :: int client_error)"
  by (simp add: carriesResult_def constructor_defs)

text \<open>
  C8, at the input where the code departs from it. For a \<^verbatim>\<open>null\<close> body \<^verbatim>\<open>typeof\<close> gives
  \<^verbatim>\<open>'object'\<close>, the getter goes on to read \<^verbatim>\<open>this.meta.body.status\<close>, and that read throws
  a \<^verbatim>\<open>TypeError\<close>; the claim has the getter return \<^verbatim>\<open>meta.statusCode\<close>, here 500.
\<close>

theorem statusCode_getter_throws_on_null_body:
  "ResponseError_statusCode
     (new_ResponseError \<lparr> statusCode = JNum (500::int), headers = None, body = JNull, nodeId = None \<rparr>)
   = Inl TypeError"
  by (simp add: ResponseError_statusCode_def new_ResponseError_def)

text \<open>
  For every body other than \<^verbatim>\<open>null\<close> the getter does what C8 says, and the other two
  getters return the fields of \<^verbatim>\<open>meta\<close> as they are.
\<close>

lemma statusCode_getter_non_null:
  "body m \<noteq> JNull \<Longrightarrow>
   ResponseError_statusCode (new_ResponseError m) =
     Inr (case body m of
            JObj ps \<Rightarrow> (case map_of ps ''status'' of Some (JNum n) \<Rightarrow> JNum n | _ \<Rightarrow> statusCode m)
          | _ \<Rightarrow> statusCode m)"
proof (cases "body m")
  case (JObj ps)
  show ?thesis
  proof (cases "map_of ps ''status''")
    case None
    with JObj show ?thesis
      by (simp add: ResponseError_statusCode_def new_ResponseError_def)
  next
    case (Some v)
    with JObj show ?thesis
      by (cases v) (simp_all add: ResponseError_statusCode_def new_ResponseError_def)
  qed
qed (simp_all add: ResponseError_statusCode_def new_ResponseError_def)

lemma body_and_headers_getters:
  "ResponseError_body (new_ResponseError m) = Inr (body m)"
  "ResponseError_headers (new_ResponseError m) = Inr (headers m)"
  by (simp_all add: ResponseError_body_def ResponseError_headers_def new_ResponseError_def)

text \<open>
  C9. The message of a \<^verbatim>\<open>ResponseError\<close> is \<^verbatim>\<open>meta.body.error.type\<close> when the body is an
  object with a non-nullish \<^verbatim>\<open>error.type\<close>, and \<^verbatim>\<open>'Response Error'\<close> in every other case:
  the constructor computes what \<open>claimed_message\<close> describes.
\<close>

theorem ResponseError_message_as_claimed:
  "message (new_ResponseError m) = claimed_message (body m)"
proof (cases "body m")
  case (JObj ps)
  show ?thesis
  proof (cases "map_of ps ''error''")
    case None
    with JObj show ?thesis
      by (simp add: new_ResponseError_def claimed_message_def coalesce_def)
  next
    case (Some e)
    with JObj show ?thesis
      by (cases e)
         (simp_all add: new_ResponseError_def claimed_message_def coalesce_def nullish_iff
            split: option.splits)
  qed
qed (simp_all add: new_ResponseError_def claimed_message_def coalesce_def)

text \<open>
  C10. Every instance of the eight classes is an \<^verbatim>\<open>ElasticsearchClientError\<close>, its name is
  the name of its class, and its message is the default of its class when the message
  supplied is \<^verbatim>\<open>undefined\<close> or \<^verbatim>\<open>null\<close> (and the supplied string otherwise). A
  \<^verbatim>\<open>ResponseError\<close> is supplied its message by \<^verbatim>\<open>meta.body?.error?.type\<close>.
\<close>

theorem taxonomy_instance_name_default_message:
  "(instanceof (new_TimeoutError msg mo :: 'n client_error) ElasticsearchClientError
      \<and> name (new_TimeoutError msg mo :: 'n client_error) = ''TimeoutError''
      \<and> message (new_TimeoutError MUndefined mo :: 'n client_error) = JStr ''Timeout Error''
      \<and> message (new_TimeoutError MNull mo :: 'n client_error) = JStr ''Timeout Error''
      \<and> message (new_TimeoutError (MStr s) mo :: 'n client_error) = JStr s)
   \<and> (instanceof (new_ConnectionError msg mo :: 'n client_error) ElasticsearchClientError
      \<and> name (new_ConnectionError msg mo :: 'n client_error) = ''ConnectionError''
      \<and> message (new_ConnectionError MUndefined mo :: 'n client_error) = JStr ''Connection Error''
      \<and> message (new_ConnectionError MNull mo :: 'n client_error) = JStr ''Connection Error''
      \<and> message (new_ConnectionError (MStr s) mo :: 'n client_error) = JStr s)
   \<and> (instanceof (new_NoLivingConnectionsError msg r :: 'n client_error) ElasticsearchClientError
      \<and> name (new_NoLivingConnectionsError msg r :: 'n client_error) = ''NoLivingConnectionsError''
      \<and> message (new_NoLivingConnectionsError MUndefined r :: 'n client_error) =
          JStr ''Given the configuration, the ConnectionPool was not able to find a usable Connection for this request.''
      \<and> message (new_NoLivingConnectionsError MNull r :: 'n client_error) =
          JStr ''Given the configuration, the ConnectionPool was not able to find a usable Connection for this request.''
      \<and> message (new_NoLivingConnectionsError (MStr s) r :: 'n client_error) = JStr s)
   \<and> (instanceof (new_SerializationError msg d :: 'n client_error) ElasticsearchClientError
      \<and> name (new_SerializationError msg d :: 'n client_error) = ''SerializationError''
      \<and> message (new_SerializationError MUndefined d :: 'n client_error) = JStr ''Serialization Error''
      \<and> message (new_SerializationError MNull d :: 'n client_error) = JStr ''Serialization Error''
      \<and> message (new_SerializationError (MStr s) d :: 'n client_error) = JStr s)
   \<and> (instanceof (new_DeserializationError msg raw :: 'n client_error) ElasticsearchClientError
      \<and> name (new_DeserializationError msg raw :: 'n client_error) = ''DeserializationError''
      \<and> message (new_DeserializationError MUndefined raw :: 'n client_error) = JStr ''Deserialization Error''
      \<and> message (new_DeserializationError MNull raw :: 'n client_error) = JStr ''Deserialization Error''
      \<and> message (new_DeserializationError (MStr s) raw :: 'n client_error) = JStr s)
   \<and> (instanceof (new_ConfigurationError msg :: 'n client_error) ElasticsearchClientError
      \<and> name (new_ConfigurationError msg :: 'n client_error) = ''ConfigurationError''
      \<and> message (new_ConfigurationError MUndefined :: 'n client_error) = JStr ''Configuration Error''
      \<and> message (new_ConfigurationError MNull :: 'n client_error) = JStr ''Configuration Error''
      \<and> message (new_ConfigurationError (MStr s) :: 'n client_error) = JStr s)
   \<and> (instanceof (new_RequestAbortedError msg mo :: 'n client_error) ElasticsearchClientError
      \<and> name (new_RequestAbortedError msg mo :: 'n client_error) = ''RequestAbortedError''
      \<and> message (new_RequestAbortedError MUndefined mo :: 'n client_error) = JStr ''Request aborted''
      \<and> message (new_RequestAbortedError MNull mo :: 'n client_error) = JStr ''Request aborted''
      \<and> message (new_RequestAbortedError (MStr s) mo :: 'n client_error) = JStr s)
   \<and> (instanceof (new_ResponseError r) ElasticsearchClientError
      \<and> name (new_ResponseError r) = ''ResponseError''
      \<and> (nullish (optChain (optChain (body r) ''error'') ''type'') \<longrightarrow>
           message (new_ResponseError r) = JStr ''Response Error''))"
  by (intro conjI TimeoutError_facts ConnectionError_facts NoLivingConnectionsError_facts
        SerializationError_facts DeserializationError_facts ConfigurationError_facts
        RequestAbortedError_facts ResponseError_facts)

theorem taxonomy_instance_name_default_message_witness:
  "nullish (optChain (optChain (JObj [(''error'', JObj [(''type'', JNull)])] :: int jsval) ''error'') ''type'')
   \<and> message (new_ResponseError
        \<lparr> statusCode = JNum (404::int), headers = None,
          body = JObj [(''error'', JObj [(''type'', JNull)])], nodeId = None \<rparr>)
      = JStr ''Response Error''
   \<and> message (new_TimeoutError MNull None :: int client_error) = JStr ''Timeout Error''"
  using taxonomy_instance_name_default_message
    [where r = "\<lparr> statusCode = JNum (404::int), headers = None,
                  body = JObj [(''error'', JObj [(''type'', JNull)])], nodeId = None \<rparr>"
       and mo = None]
  by simp

section \<open>Properties of the connection\<close>






lemma request_Received:
  "ending c p now x = Received d r \<Longrightarrow>
     outcome (request dec c p now x) = fst (handleResponse dec c r)
     \<and> buffered (request dec c p now x) = snd (handleResponse dec c r)"
  by (simp add: request_def split: prod.splits)

lemma handleResponse_error_class:
  "fst (handleResponse dec c r) = Inl e \<Longrightarrow> constructedBy e = RequestAbortedError"
  by (auto simp: handleResponse_def constructor_defs split: option.splits sum.splits prod.splits)

lemma request_error_class:
  "outcome (request dec c p now x) = Inl e \<Longrightarrow>
     constructedBy e \<in> {RequestAbortedError, TimeoutError, ConnectionError}"
proof (cases "ending c p now x")
  case (Received d r)
  assume "outcome (request dec c p now x) = Inl e"
  with request_Received [OF Received, of dec] handleResponse_error_class [of dec c r e]
  show ?thesis by simp
qed (auto simp: request_def constructor_defs)

lemma ending_cancelled:
  "cancelAt p = Some t \<Longrightarrow> t \<le> now \<Longrightarrow> ending c p now x = CancelledBeforeSend"
  by (simp add: ending_def Let_def)

text \<open>
  C2. When the timer of the attempt expires before the exchange ends (and the token has not
  fired by then), \<^verbatim>\<open>Connection.request\<close> fails with a \<^verbatim>\<open>TimeoutError\<close> whose message is
  \<^verbatim>\<open>'Request timed out'\<close>, whether the timeout \<open>T\<close> is the one given with the call or, none
  given, the default of the connection.
\<close>

theorem request_times_out:
  assumes "reqTimeout p = Some T \<or> (reqTimeout p = None \<and> connTimeout c = Some T)"
    and "T < duration x"
    and "\<forall>t. cancelAt p = Some t \<longrightarrow> now + T < t"
  shows "\<exists>e. outcome (request dec c p now x) = Inl e
            \<and> instanceof e TimeoutError \<and> message e = JStr ''Request timed out''"
proof -
  from assms(1) have T: "perAttemptTimeout c p = Some T"
    by (auto simp: perAttemptTimeout_def)
  have "ending c p now x = TimerExpired T"
  proof (cases "cancelAt p")
    case None
    with T assms(2) show ?thesis by (simp add: ending_def Let_def)
  next
    case (Some t)
    with assms(3) have "now + T < t" by simp
    then have "\<not> t \<le> now" "\<not> t - now \<le> T" by arith+
    with Some T assms(2) show ?thesis by (simp add: ending_def Let_def)
  qed
  then show ?thesis
    by (simp add: request_def instanceof_def constructor_defs coalesce_def)
qed

text \<open>
  The two tests: a connection with a timeout of 50 ms against a handler that answers after
  100 ms, and a call with a timeout of 50 ms on a connection whose default is 200 ms.
\<close>

theorem request_times_out_witness:
  "(\<exists>e. outcome (request noCodec (testConnection (Some 50)) (getHello None None) 0 (okAfter 100))
          = Inl e
        \<and> instanceof e TimeoutError \<and> message e = JStr ''Request timed out'')
   \<and> (\<exists>e. outcome (request noCodec (testConnection (Some 200)) (getHello (Some 50) None) 0
                    (okAfter 100))
          = Inl e
        \<and> instanceof e TimeoutError \<and> message e = JStr ''Request timed out'')"
proof
  show "\<exists>e. outcome (request noCodec (testConnection (Some 50)) (getHello None None) 0 (okAfter 100))
          = Inl e
        \<and> instanceof e TimeoutError \<and> message e = JStr ''Request timed out''"
    by (rule request_times_out [where T = 50]) (simp_all add: fixture_defs)
  show "\<exists>e. outcome (request noCodec (testConnection (Some 200)) (getHello (Some 50) None) 0
                    (okAfter 100))
          = Inl e
        \<and> instanceof e TimeoutError \<and> message e = JStr ''Request timed out''"
    by (rule request_times_out [where T = 50]) (simp_all add: fixture_defs)
qed

text \<open>
  C3. Constructing a connection with both a connection-reuse option and a proxy option
  fails with a \<^verbatim>\<open>ConfigurationError\<close>; construction is a function of the options and has
  no access to a node. No request ever fails with a \<^verbatim>\<open>ConfigurationError\<close>.
\<close>

theorem agent_with_proxy_is_rejected:
  "(optAgent opts \<noteq> None \<and> optProxy opts \<noteq> None \<longrightarrow>
      (\<exists>e :: 'n client_error. new_Connection opts = Inl e \<and> instanceof e ConfigurationError))
   \<and> (\<forall>e. outcome (request dec c p now (x :: 'n Exchange)) = Inl e
         \<longrightarrow> \<not> instanceof e ConfigurationError)"
proof
  show "optAgent opts \<noteq> None \<and> optProxy opts \<noteq> None \<longrightarrow>
      (\<exists>e :: 'n client_error. new_Connection opts = Inl e \<and> instanceof e ConfigurationError)"
    by (simp add: new_Connection_def instanceof_def constructor_defs)
  show "\<forall>e. outcome (request dec c p now x) = Inl e \<longrightarrow> \<not> instanceof e ConfigurationError"
  proof (intro allI impI)
    fix e assume "outcome (request dec c p now x) = Inl e"
    from request_error_class [OF this] show "\<not> instanceof e ConfigurationError"
      by (auto simp: instanceof_def)
  qed
qed

text \<open>
  The options of the conflict, and the request of \<^verbatim>\<open>'Abort a request syncronously'\<close>, whose
  failure is no \<^verbatim>\<open>ConfigurationError\<close>.
\<close>

theorem agent_with_proxy_is_rejected_witness:
  "optAgent agentAndProxy \<noteq> None \<and> optProxy agentAndProxy \<noteq> None
   \<and> (\<exists>e :: nat client_error. new_Connection agentAndProxy = Inl e
         \<and> instanceof e ConfigurationError)
   \<and> outcome (request noCodec (testConnection None) (getHello None (Some 0)) 0 (okAfter 0))
       = Inl (new_RequestAbortedError MUndefined None)
   \<and> \<not> instanceof (new_RequestAbortedError MUndefined None :: nat client_error) ConfigurationError"
proof -
  have aborted:
    "outcome (request noCodec (testConnection None) (getHello None (Some 0)) 0 (okAfter 0))
       = Inl (new_RequestAbortedError MUndefined None)"
    by (simp add: request_def ending_def getHello_def)
  from agent_with_proxy_is_rejected
    [of agentAndProxy noCodec "testConnection None" "getHello None (Some 0)" 0 "okAfter 0"]
    aborted
  show ?thesis by (simp add: agentAndProxy_def)
qed








text \<open>The messages that the two tests on the content length expect.\<close>

lemma content_length_too_big_messages:
  "outcome (request noCodec (testConnection None) (getHello None None) 0
              (Responds 0 (gzipDeclaring 4294967306)))
     = Inl (new_RequestAbortedError
         (MStr ''The content length (4294967306) is bigger than the maximum allowed buffer (4294967296)'')
         None)"
  "outcome (request noCodec (testConnection None) (getHello None None) 0
              (Responds 0 (gzipDeclaring 536870898)))
     = Inl (new_RequestAbortedError
         (MStr ''The content length (536870898) is bigger than the maximum allowed string (536870888)'')
         None)"
  by (simp_all add: request_def ending_def perAttemptTimeout_def handleResponse_def exceeded_def
        tooBigMessage_def showNat.simps fixture_defs)

section \<open>Properties of the transport\<close>

lemma send_cancelled:
  assumes "callCancelAt call = Some t" "t \<le> clock s"
  shows "\<exists>e. send env opts call node s = Fatal e (s \<lparr> clock := clock s, wireLog := wireLog s \<rparr>)
            \<and> (serialize env (callBody call) \<noteq> None \<longrightarrow> constructedBy e = RequestAbortedError)"
proof (cases "serialize env (callBody call)")
  case None
  then show ?thesis by (simp add: send_def)
next
  case (Some bytes)
  have "ending (connectionOf opts node)
          \<lparr> reqMethod = callMethod call, reqPath = callPath call,
            reqQuerystring = callQuerystring call, reqHeaders = callHeaders call,
            reqBody = Bytes bytes, reqTimeout = attemptTimeout opts call s,
            cancelAt = callCancelAt call \<rparr>
          (clock s) (exchange env (nid node) (clock s)) = CancelledBeforeSend"
    using assms by (intro ending_cancelled [of _ t]) simp_all
  with Some show ?thesis
    by (simp add: send_def request_def Let_def constructor_defs)
qed

lemma attempt_cancelled:
  assumes "callCancelAt call = Some t" "t \<le> clock s"
  shows "\<exists>e s'. attempt env opts call s = Fatal e s'
            \<and> attempts s' = attempts s \<and> wireLog s' = wireLog s
            \<and> (candidates (nodeFilter opts) (triedNodeIds s) (pool s) \<noteq> []
                 \<and> serialize env (callBody call) \<noteq> None
               \<longrightarrow> constructedBy e = RequestAbortedError)"
proof (cases "getConnection (probe env) (clock s) (nodeFilter opts) (nodeSelector opts)
                (triedNodeIds s) (pool s)")
  case (Pair found p)
  show ?thesis
  proof (cases found)
    case None
    with Pair have "candidates (nodeFilter opts) (triedNodeIds s) (pool s) = []"
      by (auto simp: getConnection_def Let_def split: if_splits)
    with None Pair show ?thesis by (simp add: attempt_def)
  next
    case (Some node)
    let ?s1 = "s \<lparr> pool := p, triedNodeIds := triedNodeIds s @ [nid node] \<rparr>"
    from assms have "callCancelAt call = Some t" "t \<le> clock ?s1" by simp_all
    from send_cancelled [OF this, of env opts node] Some Pair show ?thesis
      by (auto simp: attempt_def)
  qed
qed

text \<open>
  C5. When the token has fired before the attempt starts, \<^verbatim>\<open>Connection.request\<close> fails with
  a \<^verbatim>\<open>RequestAbortedError\<close> at once and nothing goes on the wire. A call of the transport
  with such a token ends in an error with no attempt counted and no request on the wire;
  the error is the \<^verbatim>\<open>RequestAbortedError\<close> whenever the pool has a node to select and the
  body can be encoded, so that the call reaches \<^verbatim>\<open>Connection.request\<close>.
\<close>

theorem cancelled_before_send:
  "(cancelAt p = Some t \<and> t \<le> now \<longrightarrow>
      (\<exists>e. outcome (request dec c p now x) = Inl e \<and> instanceof e RequestAbortedError)
      \<and> wire (request dec c p now x) = None
      \<and> elapsed (request dec c p now x) = 0)
   \<and> (callCancelAt call = Some t \<and> t \<le> now \<longrightarrow>
      (\<exists>e. fst (Transport_request env opts call pl now) = Inl e
          \<and> (candidates (nodeFilter opts) [] pl \<noteq> [] \<and> serialize env (callBody call) \<noteq> None
               \<longrightarrow> instanceof e RequestAbortedError))
      \<and> attempts (snd (Transport_request env opts call pl now)) = 0
      \<and> wireLog (snd (Transport_request env opts call pl now)) = [])"
proof (intro conjI impI)
  assume "cancelAt p = Some t \<and> t \<le> now"
  then have e: "ending c p now x = CancelledBeforeSend"
    by (simp add: ending_cancelled)
  then show "\<exists>e. outcome (request dec c p now x) = Inl e \<and> instanceof e RequestAbortedError"
    by (simp add: request_def instanceof_def constructor_defs)
  from e show "wire (request dec c p now x) = None" by (simp add: request_def)
  from e show "elapsed (request dec c p now x) = 0" by (simp add: request_def)
next
  assume a: "callCancelAt call = Some t \<and> t \<le> now"
  let ?s = "initialState pl now"
  from a have "callCancelAt call = Some t" "t \<le> clock ?s" by (simp_all add: initialState_def)
  from attempt_cancelled [OF this, of env opts]
  obtain e s' where f: "attempt env opts call ?s = Fatal e s'"
    and s': "attempts s' = 0" "wireLog s' = []"
    and k: "candidates (nodeFilter opts) [] pl \<noteq> [] \<and> serialize env (callBody call) \<noteq> None
              \<longrightarrow> constructedBy e = RequestAbortedError"
    by (auto simp: initialState_def)
  from f have r: "Transport_request env opts call pl now = (Inl e, s')"
    by (simp add: Transport_request_def attemptLoop.simps [of env opts call ?s])
  from r k show "\<exists>e. fst (Transport_request env opts call pl now) = Inl e
          \<and> (candidates (nodeFilter opts) [] pl \<noteq> [] \<and> serialize env (callBody call) \<noteq> None
               \<longrightarrow> instanceof e RequestAbortedError)"
    by (auto simp: instanceof_def)
  from r s' show "attempts (snd (Transport_request env opts call pl now)) = 0" by simp
  from r s' show "wireLog (snd (Transport_request env opts call pl now)) = []" by simp
qed

text \<open>The test \<^verbatim>\<open>'Abort a request syncronously'\<close>, and the same token given to a call.\<close>

theorem cancelled_before_send_witness:
  "cancelAt (getHello None (Some 0)) = Some 0
   \<and> (\<exists>e. outcome (request noCodec (testConnection None) (getHello None (Some 0)) 0 (okAfter 0))
           = Inl e
        \<and> instanceof e RequestAbortedError)
   \<and> wire (request noCodec (testConnection None) (getHello None (Some 0)) 0 (okAfter 0)) = None
   \<and> callCancelAt (getRoot (Some 0)) = Some 0
   \<and> attempts (snd (Transport_request unreachableCluster (clientDefaults 3) (getRoot (Some 0))
        (poolOf Ping [aliveNodeAt ''a'']) 0)) = 0
   \<and> wireLog (snd (Transport_request unreachableCluster (clientDefaults 3) (getRoot (Some 0))
        (poolOf Ping [aliveNodeAt ''a'']) 0)) = []"
  using
    cancelled_before_send
      [of "getHello None (Some 0)" 0 0 noCodec "testConnection None" "okAfter 0"
          "getRoot (Some 0)" unreachableCluster "clientDefaults 3" "poolOf Ping [aliveNodeAt ''a'']"]
  by (simp add: getHello_def getRoot_def)


























end
